theory Spec2Isabelle
  imports Complex_Main "HOL-Library.Sublist" "HOL-Library.Log_Nat"
begin

section \<open>The commercial solar calculator: data model\<close>

text \<open>
  The development embeds \<^verbatim>\<open>solar_calculator_app.py\<close>: the class
  \<^verbatim>\<open>SolarDemandCalculator\<close> and the parts of \<^verbatim>\<open>main\<close> that read or change
  its loads. The Streamlit widgets, the table and the page layout are presentation and
  are left out.

  Every number that the source passes to the class is a Python \<open>int\<close> (the form's
  \<^verbatim>\<open>number_input\<close> widgets have integer bounds, the quick-start buttons pass
  integer literals, the constructor's default is \<open>48\<close>); Python's unbounded
  \<open>int\<close> is HOL's \<^typ>\<open>int\<close>. The true division \<^verbatim>\<open>/\<close> and the literals
  \<open>4.5\<close>, \<open>1.2\<close>, \<open>1.3\<close>, \<open>0.3\<close> produce Python floats, which are binary64
  numbers; they are modelled with their rounding and their overflow.
\<close>

text \<open>
  The errors that the modelled code can raise, and the values that a call of
  \<^verbatim>\<open>add_load\<close> can be compared with: \<open>None\<close> and the integers.
\<close>

datatype pyerror = ZeroDivisionError | IndexError | OverflowError

datatype pyval = PyNone | PyInt int

section \<open>Python numbers\<close>

subsection \<open>Rounding to binary64\<close>

text \<open>
  \<open>ilog2 q\<close> is the binary exponent of a positive rational: the \<open>e\<close> with
  \<open>2\<^sup>e \<le> q < 2\<^sup>e\<^sup>+\<^sup>1\<close>. It is one of two candidates read off the bit lengths of
  numerator and denominator.
\<close>

definition ilog2 :: "rat \<Rightarrow> int" where
  "ilog2 q =
     (let (n, d) = quotient_of q;
          k = bitlen n - bitlen d
      in if 2 powi k \<le> q then k else k - 1)"

text \<open>Rounding to the nearest integer, a tie going to the even one.\<close>

definition round_half_even :: "rat \<Rightarrow> int" where
  "round_half_even x =
     (let f = \<lfloor>x\<rfloor>;
          r = x - of_int f
      in if r < 1 / 2 then f
         else if 1 / 2 < r then f + 1
         else if even f then f else f + 1)"

text \<open>
  \<open>round64 q\<close> is the multiple of the unit in the last place that is nearest
  to \<open>q\<close>, ties to even. A binary64 number has 53 significant bits, so the unit
  of a number with exponent \<open>e\<close> is \<open>2\<^sup>e\<^sup>-\<^sup>5\<^sup>2\<close>; below the smallest normal
  exponent \<open>-1022\<close> the unit stays \<open>2\<^sup>-\<^sup>1\<^sup>0\<^sup>7\<^sup>4\<close> (subnormal numbers). The
  exponent is not bounded above here: a result of magnitude \<open>2\<^sup>1\<^sup>0\<^sup>2\<^sup>4\<close> or more is
  not a binary64 number, and each operation says what it does with it.
\<close>

definition round64 :: "rat \<Rightarrow> rat" where
  "round64 q =
     (if q = 0 then 0
      else
        let e = ilog2 \<bar>q\<bar>;
            u = max e (- 1022) - 52
        in of_int (round_half_even (q / 2 powi u)) * 2 powi u)"

subsection \<open>Floats\<close>

text \<open>
  A float is a finite binary64 number, given by the rational it denotes, an
  infinity or a NaN. The two zeros of binary64 are one value here; Python's \<open>==\<close>
  does not tell them apart either. The arithmetic of the hardware rounds the exact
  result; a result that is too large becomes an infinity, without an exception.
\<close>

datatype pyfloat = Finite rat | PosInf | NegInf | NaN

definition ieee_round :: "rat \<Rightarrow> pyfloat" where
  "ieee_round q =
     (let r = round64 q
      in if 2 powi 1024 \<le> r then PosInf
         else if r \<le> - (2 powi 1024) then NegInf
         else Finite r)"

text \<open>A float literal of the source denotes the nearest binary64 number.\<close>

definition float_literal :: "rat \<Rightarrow> pyfloat" where
  "float_literal q = ieee_round q"

fun float_mul :: "pyfloat \<Rightarrow> pyfloat \<Rightarrow> pyfloat" where
  "float_mul (Finite a) (Finite b) = ieee_round (a * b)"
| "float_mul NaN y = NaN"
| "float_mul x NaN = NaN"
| "float_mul (Finite a) PosInf = (if a = 0 then NaN else if 0 < a then PosInf else NegInf)"
| "float_mul (Finite a) NegInf = (if a = 0 then NaN else if 0 < a then NegInf else PosInf)"
| "float_mul PosInf (Finite b) = (if b = 0 then NaN else if 0 < b then PosInf else NegInf)"
| "float_mul NegInf (Finite b) = (if b = 0 then NaN else if 0 < b then NegInf else PosInf)"
| "float_mul PosInf PosInf = PosInf"
| "float_mul PosInf NegInf = NegInf"
| "float_mul NegInf PosInf = NegInf"
| "float_mul NegInf NegInf = PosInf"

fun float_add :: "pyfloat \<Rightarrow> pyfloat \<Rightarrow> pyfloat" where
  "float_add (Finite a) (Finite b) = ieee_round (a + b)"
| "float_add NaN y = NaN"
| "float_add x NaN = NaN"
| "float_add (Finite a) y = y"
| "float_add x (Finite b) = x"
| "float_add PosInf PosInf = PosInf"
| "float_add NegInf NegInf = NegInf"
| "float_add PosInf NegInf = NaN"
| "float_add NegInf PosInf = NaN"

text \<open>
  Python's division of floats raises \<open>ZeroDivisionError\<close> when the divisor is
  zero, whatever the dividend is; otherwise it is the division of the hardware.
\<close>

fun float_div :: "pyfloat \<Rightarrow> pyfloat \<Rightarrow> pyerror + pyfloat" where
  "float_div x (Finite b) =
     (if b = 0 then Inl ZeroDivisionError
      else Inr (case x of
                  Finite a \<Rightarrow> ieee_round (a / b)
                | PosInf \<Rightarrow> if 0 < b then PosInf else NegInf
                | NegInf \<Rightarrow> if 0 < b then NegInf else PosInf
                | NaN \<Rightarrow> NaN))"
| "float_div x NaN = Inr NaN"
| "float_div (Finite a) y = Inr (Finite 0)"
| "float_div x y = Inr NaN"

subsection \<open>Integers and floats together\<close>

text \<open>
  \<^verbatim>\<open>a / b\<close> on two ints is the exact quotient rounded once; it raises
  \<open>ZeroDivisionError\<close> for the divisor zero and \<open>OverflowError\<close> when the
  rounded quotient is too large for a float.
\<close>

definition truediv_int :: "int \<Rightarrow> int \<Rightarrow> pyerror + pyfloat" where
  "truediv_int a b =
     (if b = 0 then Inl ZeroDivisionError
      else
        let r = round64 (of_int a / of_int b)
        in if 2 powi 1024 \<le> \<bar>r\<bar> then Inl OverflowError else Inr (Finite r))"

text \<open>
  An int that meets a float in an operation is converted to a float first, which
  raises \<open>OverflowError\<close> when the int is too large.
\<close>

definition int_to_float :: "int \<Rightarrow> pyerror + pyfloat" where
  "int_to_float n =
     (let r = round64 (of_int n)
      in if 2 powi 1024 \<le> \<bar>r\<bar> then Inl OverflowError else Inr (Finite r))"

datatype pynum = NInt int | NFloat pyfloat

definition as_float :: "pynum \<Rightarrow> pyerror + pyfloat" where
  "as_float x = (case x of NInt n \<Rightarrow> int_to_float n | NFloat f \<Rightarrow> Inr f)"

text \<open>Running on with the value of a call that did not raise.\<close>

definition and_then :: "pyerror + 'a \<Rightarrow> ('a \<Rightarrow> pyerror + 'b) \<Rightarrow> pyerror + 'b" where
  "and_then r f = (case r of Inl e \<Rightarrow> Inl e | Inr x \<Rightarrow> f x)"

text \<open>The operators \<^verbatim>\<open>/\<close>, \<^verbatim>\<open>*\<close> and \<^verbatim>\<open>+\<close> on numbers.\<close>

definition truediv :: "pynum \<Rightarrow> pynum \<Rightarrow> pyerror + pynum" where
  "truediv x y =
     (case (x, y) of
        (NInt a, NInt b) \<Rightarrow> and_then (truediv_int a b) (\<lambda>f. Inr (NFloat f))
      | _ \<Rightarrow>
          and_then (as_float x) (\<lambda>a.
          and_then (as_float y) (\<lambda>b.
          and_then (float_div a b) (\<lambda>f. Inr (NFloat f)))))"

definition mul :: "pynum \<Rightarrow> pynum \<Rightarrow> pyerror + pynum" where
  "mul x y =
     (case (x, y) of
        (NInt a, NInt b) \<Rightarrow> Inr (NInt (a * b))
      | _ \<Rightarrow>
          and_then (as_float x) (\<lambda>a.
          and_then (as_float y) (\<lambda>b. Inr (NFloat (float_mul a b)))))"

definition add :: "pynum \<Rightarrow> pynum \<Rightarrow> pyerror + pynum" where
  "add x y =
     (case (x, y) of
        (NInt a, NInt b) \<Rightarrow> Inr (NInt (a + b))
      | _ \<Rightarrow>
          and_then (as_float x) (\<lambda>a.
          and_then (as_float y) (\<lambda>b. Inr (NFloat (float_add a b)))))"

section \<open>Loads and list objects\<close>

text \<open>
  A load is the dictionary that \<^verbatim>\<open>add_load\<close> builds, with its five keys.
\<close>

record load =
  description :: string
  power_w :: int
  quantity :: int
  hours_per_day :: int
  daily_energy_wh :: int

text \<open>
  A Python list is an object with an identity: \<^verbatim>\<open>calculator.loads\<close> and
  \<^verbatim>\<open>st.session_state.loads\<close> are names for list objects and may name the same
  one. The heap maps a reference to the content of the list object it names;
  \<open>fresh\<close> is the next unused reference. A name of the program always refers
  to an object that exists, so \<open>get_list\<close> is read at references that have been
  created by \<open>new_list\<close>.
\<close>

type_synonym ref = nat

record heap =
  lists :: "ref \<Rightarrow> load list option"
  fresh :: ref

definition empty_heap :: heap where
  "empty_heap = \<lparr>lists = (\<lambda>r. None), fresh = 0\<rparr>"

definition get_list :: "heap \<Rightarrow> ref \<Rightarrow> load list" where
  "get_list h r = the (lists h r)"

definition set_list :: "heap \<Rightarrow> ref \<Rightarrow> load list \<Rightarrow> heap" where
  "set_list h r xs = h\<lparr>lists := (lists h)(r \<mapsto> xs)\<rparr>"

text \<open>The expression \<^verbatim>\<open>[]\<close> creates a new, empty list object.\<close>

definition new_list :: "heap \<Rightarrow> ref \<times> heap" where
  "new_list h = (fresh h, \<lparr>lists = (lists h)(fresh h \<mapsto> []), fresh = Suc (fresh h)\<rparr>)"

text \<open>\<^verbatim>\<open>list.append(x)\<close> changes the list object in place.\<close>

definition list_append :: "ref \<Rightarrow> load \<Rightarrow> heap \<Rightarrow> heap" where
  "list_append r x h = set_list h r (get_list h r @ [x])"

text \<open>
  \<^verbatim>\<open>list.pop(i)\<close>: the index is converted to a machine integer of 64 bits
  first, which raises \<open>OverflowError\<close> for an index that does not fit (CPython on
  a 64-bit platform). A negative index counts from the end; an index outside
  \<open>-n \<le> i < n\<close> raises \<open>IndexError\<close>. In both cases the list is as it was.
  Otherwise the item is removed in place and returned.
\<close>

definition list_pop :: "ref \<Rightarrow> int \<Rightarrow> heap \<Rightarrow> (pyerror + load) \<times> heap" where
  "list_pop r i h =
     (if i < - (2 ^ 63) \<or> 2 ^ 63 \<le> i then (Inl OverflowError, h)
      else
        let xs = get_list h r;
            n = int (length xs);
            j = (if i < 0 then i + n else i)
        in if j < 0 \<or> n \<le> j then (Inl IndexError, h)
           else (Inr (xs ! nat j), set_list h r (take (nat j) xs @ drop (Suc (nat j)) xs)))"

section \<open>The class SolarDemandCalculator\<close>

text \<open>
  An instance has the attributes \<^verbatim>\<open>system_voltage\<close> and \<^verbatim>\<open>loads\<close>; the
  latter holds a reference to a list object.
\<close>

record calculator =
  system_voltage :: int
  loads :: ref

text \<open>
  \<^verbatim>\<open>__init__(self, system_voltage=48)\<close> stores the voltage as given and creates
  the list. It has no check and no \<^verbatim>\<open>raise\<close>.
\<close>

definition init :: "int \<Rightarrow> heap \<Rightarrow> calculator \<times> heap" where
  "init v h = (let (r, h') = new_list h in (\<lparr>system_voltage = v, loads = r\<rparr>, h'))"

text \<open>
  \<^verbatim>\<open>add_load\<close> builds the dictionary and appends it. It has no \<^verbatim>\<open>return\<close>
  statement, so the call evaluates to \<open>None\<close>, and no \<^verbatim>\<open>raise\<close>.
\<close>

definition add_load :: "calculator \<Rightarrow> string \<Rightarrow> int \<Rightarrow> int \<Rightarrow> int \<Rightarrow> heap \<Rightarrow> pyval \<times> heap" where
  "add_load self d p q t h =
     (PyNone,
      list_append (loads self)
        \<lparr>description = d, power_w = p, quantity = q, hours_per_day = t,
         daily_energy_wh = p * q * t\<rparr> h)"

text \<open>
  The dictionary that \<^verbatim>\<open>calculate_demand\<close> returns. The two sums are ints; the
  other two entries are the int \<open>0\<close> for an empty list and floats otherwise.
\<close>

record demand =
  total_energy_wh :: int
  total_energy_kwh :: pynum
  total_ah :: pynum
  peak_power_w :: int

definition zero_demand :: demand where
  "zero_demand =
     \<lparr>total_energy_wh = 0, total_energy_kwh = NInt 0, total_ah = NInt 0, peak_power_w = 0\<rparr>"

text \<open>
  \<^verbatim>\<open>calculate_demand\<close>: an empty list is falsy, so \<^verbatim>\<open>if not self.loads\<close>
  returns the four zeros at once. Otherwise the two sums are taken and the
  dictionary is built, its entries in the order of the source: the division by
  1000, which can raise \<open>OverflowError\<close>, comes before the division by
  \<^verbatim>\<open>self.system_voltage\<close>, which can raise \<open>ZeroDivisionError\<close> or
  \<open>OverflowError\<close>.
\<close>

definition calculate_demand :: "calculator \<Rightarrow> heap \<Rightarrow> pyerror + demand" where
  "calculate_demand self h =
     (let ls = get_list h (loads self) in
      if ls = [] then Inr zero_demand
      else
        let total = sum_list (map daily_energy_wh ls);
            peak = sum_list (map (\<lambda>l. power_w l * quantity l) ls)
        in and_then (truediv_int total 1000) (\<lambda>kwh.
           and_then (truediv_int total (system_voltage self)) (\<lambda>ah.
           Inr \<lparr>total_energy_wh = total,
                total_energy_kwh = NFloat kwh,
                total_ah = NFloat ah,
                peak_power_w = peak\<rparr>)))"

section \<open>The handlers of main\<close>

text \<open>
  The session state holds the calculator and, under the key \<^verbatim>\<open>loads\<close>, a
  reference to a list object. The heap is carried along.
\<close>

record session =
  calc :: calculator
  sloads :: ref
  mem :: heap

text \<open>
  The first run: \<^verbatim>\<open>st.session_state.calculator = SolarDemandCalculator()\<close> and
  \<^verbatim>\<open>st.session_state.loads = []\<close>.
\<close>

definition startup :: session where
  "startup =
     (let (c, h1) = init 48 empty_heap;
          (r, h2) = new_list h1
      in \<lparr>calc = c, sloads = r, mem = h2\<rparr>)"

text \<open>
  The button "Add Load": the custom name wins over the selected appliance when it
  is not empty; the load is added and \<^verbatim>\<open>st.session_state.loads\<close> is assigned
  \<^verbatim>\<open>st.session_state.calculator.loads\<close>, the list object itself.
\<close>

definition on_add_load :: "string \<Rightarrow> string \<Rightarrow> int \<Rightarrow> int \<Rightarrow> int \<Rightarrow> session \<Rightarrow> session" where
  "on_add_load custom_name appliance_name p q t s =
     (let name_to_use = (if custom_name = [] then appliance_name else custom_name);
          h = snd (add_load (calc s) name_to_use p q t (mem s))
      in s\<lparr>sloads := loads (calc s), mem := h\<rparr>)"

text \<open>
  A button "Delete": \<^verbatim>\<open>st.session_state.calculator.loads.pop(i)\<close>, then the
  same assignment. When \<^verbatim>\<open>pop\<close> raises, the assignment is not reached.
\<close>

definition on_delete :: "int \<Rightarrow> session \<Rightarrow> pyerror option \<times> session" where
  "on_delete i s =
     (case list_pop (loads (calc s)) i (mem s) of
        (Inl e, h) \<Rightarrow> (Some e, s\<lparr>mem := h\<rparr>)
      | (Inr x, h) \<Rightarrow> (None, s\<lparr>sloads := loads (calc s), mem := h\<rparr>))"

text \<open>
  The button "Clear All Loads": \<^verbatim>\<open>calculator.loads = []\<close> and
  \<^verbatim>\<open>st.session_state.loads = []\<close>, two new list objects.
\<close>

definition on_clear :: "session \<Rightarrow> session" where
  "on_clear s =
     (let (r1, h1) = new_list (mem s);
          (r2, h2) = new_list h1
      in \<lparr>calc = (calc s)\<lparr>loads := r1\<rparr>, sloads = r2, mem = h2\<rparr>)"

text \<open>
  The three quick-start buttons: three calls of \<^verbatim>\<open>add_load\<close> with literal
  arguments, then the assignment of the list object.
\<close>

definition small_office_setup :: "session \<Rightarrow> session" where
  "small_office_setup s =
     (let h1 = snd (add_load (calc s) ''LED Lights'' 20 15 10 (mem s));
          h2 = snd (add_load (calc s) ''Computers'' 150 5 8 h1);
          h3 = snd (add_load (calc s) ''AC Unit'' 1500 1 6 h2)
      in s\<lparr>sloads := loads (calc s), mem := h3\<rparr>)"

definition retail_store_setup :: "session \<Rightarrow> session" where
  "retail_store_setup s =
     (let h1 = snd (add_load (calc s) ''LED Lights'' 20 30 12 (mem s));
          h2 = snd (add_load (calc s) ''Refrigerator'' 300 2 24 h1);
          h3 = snd (add_load (calc s) ''AC Unit'' 1500 2 8 h2)
      in s\<lparr>sloads := loads (calc s), mem := h3\<rparr>)"

definition workshop_setup :: "session \<Rightarrow> session" where
  "workshop_setup s =
     (let h1 = snd (add_load (calc s) ''LED Lights'' 20 20 10 (mem s));
          h2 = snd (add_load (calc s) ''Power Tools'' 1000 3 4 h1);
          h3 = snd (add_load (calc s) ''Ventilation'' 200 2 8 h2)
      in s\<lparr>sloads := loads (calc s), mem := h3\<rparr>)"

text \<open>
  What the user can do to a session: press one of the buttons. \<open>step\<close> gives the
  session after the handler has run; when the handler raises, that is the session
  at the \<^verbatim>\<open>raise\<close>. \<open>run\<close> presses a sequence of buttons.
\<close>

datatype event =
    AddLoad string string int int int
  | Delete int
  | ClearAll
  | SmallOffice
  | RetailStore
  | Workshop

fun step :: "event \<Rightarrow> session \<Rightarrow> session" where
  "step (AddLoad custom_name appliance_name p q t) s = on_add_load custom_name appliance_name p q t s"
| "step (Delete i) s = snd (on_delete i s)"
| "step ClearAll s = on_clear s"
| "step SmallOffice s = small_office_setup s"
| "step RetailStore s = retail_store_setup s"
| "step Workshop s = workshop_setup s"

fun run :: "event list \<Rightarrow> session \<Rightarrow> session" where
  "run [] s = s"
| "run (e # es) s = run es (step e s)"

text \<open>The list of the calculator in a session.\<close>

definition current_loads :: "session \<Rightarrow> load list" where
  "current_loads s = get_list (mem s) (loads (calc s))"

section \<open>Sizing and cost in main\<close>

text \<open>
  \<^verbatim>\<open>main\<close> derives the sizing and the cost from the dictionary \<^verbatim>\<open>results\<close>
  that \<^verbatim>\<open>calculate_demand\<close> returned. \<^verbatim>\<open>pv_size\<close>, \<^verbatim>\<open>equipment_cost\<close> and
  \<^verbatim>\<open>total_cost\<close> are variables of \<^verbatim>\<open>main\<close>; the battery bank, the inverter
  and the installation are the expressions that the f-strings of the tabs
  "System Design" and "Cost Estimate" format. An expression that raises ends the
  run of \<^verbatim>\<open>main\<close>, so a later expression has the values of the earlier ones.
\<close>

definition pv_size :: "demand \<Rightarrow> pyerror + pynum" where
  "pv_size results = truediv (total_energy_kwh results) (NFloat (float_literal 4.5))"

definition battery_capacity_kwh :: "demand \<Rightarrow> pyerror + pynum" where
  "battery_capacity_kwh results = mul (total_energy_kwh results) (NInt 2)"

definition inverter_kw :: "demand \<Rightarrow> pyerror + pynum" where
  "inverter_kw results =
     and_then (truediv (NInt (peak_power_w results)) (NInt 1000)) (\<lambda>kw.
     mul kw (NFloat (float_literal 1.2)))"

definition equipment_cost :: "demand \<Rightarrow> pyerror + pynum" where
  "equipment_cost results =
     and_then (pv_size results) (\<lambda>pv.
     and_then (mul pv (NInt 1200)) (\<lambda>panels.
     and_then (mul (total_energy_kwh results) (NInt 2)) (\<lambda>bank.
     and_then (mul bank (NInt 600)) (\<lambda>batteries.
     add panels batteries))))"

definition total_cost :: "demand \<Rightarrow> pyerror + pynum" where
  "total_cost results =
     and_then (equipment_cost results) (\<lambda>cost. mul cost (NFloat (float_literal 1.3)))"

definition installation_cost :: "demand \<Rightarrow> pyerror + pynum" where
  "installation_cost results =
     and_then (equipment_cost results) (\<lambda>cost. mul cost (NFloat (float_literal 0.3)))"

section \<open>Notions used in the statements\<close>

text \<open>
  The cached energy of a load agrees with its other fields.
\<close>

definition energy_consistent :: "load \<Rightarrow> bool" where
  "energy_consistent l \<longleftrightarrow> daily_energy_wh l = power_w l * quantity l * hours_per_day l"

text \<open>
  The load that \<^verbatim>\<open>add_load\<close> would have built with the same description, power
  and quantity and with other hours.
\<close>

definition with_hours :: "(load \<Rightarrow> int) \<Rightarrow> load \<Rightarrow> load" where
  "with_hours g l =
     \<lparr>description = description l, power_w = power_w l, quantity = quantity l,
      hours_per_day = g l, daily_energy_wh = power_w l * quantity l * g l\<rparr>"

section \<open>Facts about rounding\<close>

lemma bitlen_rat_bounds:
  fixes n :: int
  assumes "0 < n"
  shows "(2::rat) powi (bitlen n - 1) \<le> of_int n" "(of_int n :: rat) < 2 powi (bitlen n)"
proof -
  have b: "1 \<le> bitlen n"
    using assms bitlen_eq_zero_iff [of n] bitlen_nonneg [of n] by linarith
  from bitlen_bounds [OF assms]
  have l: "2 ^ nat (bitlen n - 1) \<le> n" and u: "n < 2 ^ nat (bitlen n)"
    by simp_all
  from l have "(of_int (2 ^ nat (bitlen n - 1)) :: rat) \<le> of_int n"
    by (simp only: of_int_le_iff)
  then show "(2::rat) powi (bitlen n - 1) \<le> of_int n"
    using b by (simp add: power_int_def)
  from u have "(of_int n :: rat) < of_int (2 ^ nat (bitlen n))"
    by (simp only: of_int_less_iff)
  then show "(of_int n :: rat) < 2 powi (bitlen n)"
    using b by (simp add: power_int_def)
qed

lemma powi_less_cancel: "(2::rat) powi a < 2 powi b \<Longrightarrow> a < b"
  by (rule ccontr) (simp add: not_less power_int_increasing leD)

text \<open>\<open>ilog2\<close> is the binary exponent, and the only one.\<close>

lemma ilog2_bounds:
  assumes "0 < q"
  shows "2 powi (ilog2 q) \<le> q \<and> q < 2 powi (ilog2 q + 1)"
proof -
  obtain n d where qd: "quotient_of q = (n, d)"
    by (cases "quotient_of q")
  then have q: "q = of_int n / of_int d" and d: "0 < d"
    by (simp_all add: quotient_of_div quotient_of_denom_pos)
  from assms q d have n: "0 < n"
    by (simp add: zero_less_divide_iff)
  define k where "k = bitlen n - bitlen d"
  have dr: "(0::rat) < of_int d"
    using d by simp
  have "of_int n < (2::rat) powi (bitlen n)"
    by (rule bitlen_rat_bounds [OF n])
  moreover have "(2::rat) powi (bitlen d - 1) \<le> of_int d"
    by (rule bitlen_rat_bounds [OF d])
  ultimately have "of_int n * 2 powi (bitlen d - 1) < (2::rat) powi (bitlen n) * of_int d"
    by (intro mult_less_le_imp_less) (use n in simp_all)
  then have "q * 2 powi (bitlen d - 1) < (2::rat) powi (bitlen n)"
    using dr by (simp add: q field_simps)
  moreover have "(2::rat) powi (bitlen n) = 2 powi (k + 1) * 2 powi (bitlen d - 1)"
    by (simp add: k_def flip: power_int_add)
  ultimately have up: "q < 2 powi (k + 1)"
    by simp
  have "(2::rat) powi (bitlen n - 1) \<le> of_int n"
    by (rule bitlen_rat_bounds [OF n])
  moreover have "of_int d < (2::rat) powi (bitlen d)"
    by (rule bitlen_rat_bounds [OF d])
  ultimately have "(2::rat) powi (bitlen n - 1) * of_int d < of_int n * 2 powi (bitlen d)"
    by (intro mult_le_less_imp_less) (use d in simp_all)
  then have "(2::rat) powi (bitlen n - 1) < q * 2 powi (bitlen d)"
    using dr by (simp add: q field_simps)
  moreover have "(2::rat) powi (bitlen n - 1) = 2 powi (k - 1) * 2 powi (bitlen d)"
    by (simp add: k_def flip: power_int_add)
  ultimately have lo: "2 powi (k - 1) < q"
    by simp
  have i: "ilog2 q = (if 2 powi k \<le> q then k else k - 1)"
    by (simp add: ilog2_def qd k_def)
  show ?thesis
  proof (cases "2 powi k \<le> q")
    case True
    with up i show ?thesis by simp
  next
    case False
    with lo i show ?thesis by simp
  qed
qed

lemma ilog2_unique:
  assumes "2 powi e \<le> q" and "q < 2 powi (e + 1)"
  shows "ilog2 q = e"
proof -
  have q: "0 < q"
    by (rule less_le_trans [OF _ assms(1)]) simp
  from ilog2_bounds [OF q] assms
  have "(2::rat) powi (ilog2 q) < 2 powi (e + 1)" and "(2::rat) powi e < 2 powi (ilog2 q + 1)"
    by auto
  then have "ilog2 q < e + 1" and "e < ilog2 q + 1"
    by (auto dest: powi_less_cancel)
  then show ?thesis
    by simp
qed

text \<open>The rounding to an integer is off by a half at most, and it is monotone at integers.\<close>

lemma round_half_even_cases:
  "round_half_even x = \<lfloor>x\<rfloor> \<and> x - of_int \<lfloor>x\<rfloor> \<le> 1 / 2 \<or>
   round_half_even x = \<lfloor>x\<rfloor> + 1 \<and> 1 / 2 \<le> x - of_int \<lfloor>x\<rfloor>"
  by (auto simp: round_half_even_def Let_def)

lemma round_half_even_error: "\<bar>of_int (round_half_even x) - x\<bar> \<le> 1 / 2"
proof -
  have "of_int \<lfloor>x\<rfloor> \<le> x" and "x < of_int \<lfloor>x\<rfloor> + 1"
    by linarith+
  with round_half_even_cases [of x] show ?thesis
    by auto
qed

lemma round_half_even_ge:
  assumes "of_int n \<le> x"
  shows "n \<le> round_half_even x"
proof -
  from assms have "n \<le> \<lfloor>x\<rfloor>"
    by (simp add: le_floor_iff)
  with round_half_even_cases [of x] show ?thesis
    by auto
qed

lemma round_half_even_le:
  assumes "x \<le> of_int n"
  shows "round_half_even x \<le> n"
proof -
  from assms have f: "\<lfloor>x\<rfloor> \<le> n"
    by (simp add: floor_le_iff)
  from round_half_even_cases [of x] show ?thesis
  proof
    assume "round_half_even x = \<lfloor>x\<rfloor> \<and> x - of_int \<lfloor>x\<rfloor> \<le> 1 / 2"
    with f show ?thesis by simp
  next
    assume a: "round_half_even x = \<lfloor>x\<rfloor> + 1 \<and> 1 / 2 \<le> x - of_int \<lfloor>x\<rfloor>"
    then have "of_int \<lfloor>x\<rfloor> < x"
      by linarith
    with assms have "(of_int \<lfloor>x\<rfloor> :: rat) < of_int n"
      by linarith
    then have "\<lfloor>x\<rfloor> < n"
      by (simp only: of_int_less_iff)
    with a show ?thesis by simp
  qed
qed

text \<open>
  A way to compute \<open>round64\<close> at a given number: name the exponent and the
  integer that the scaled number rounds to.
\<close>

lemma round64I:
  assumes "2 powi e \<le> \<bar>q\<bar>" and "\<bar>q\<bar> < 2 powi (e + 1)"
    and "round_half_even (q / 2 powi (max e (- 1022) - 52)) = m"
  shows "round64 q = of_int m * 2 powi (max e (- 1022) - 52)"
proof -
  have "0 < \<bar>q\<bar>"
    by (rule less_le_trans [OF _ assms(1)]) simp
  then have "q \<noteq> 0"
    by simp
  moreover have "ilog2 \<bar>q\<bar> = e"
    using assms(1,2) by (rule ilog2_unique)
  ultimately show ?thesis
    using assms(3) by (simp add: round64_def)
qed

text \<open>
  The rounded number is within half a unit in the last place: a relative error of
  \<open>2\<^sup>-\<^sup>5\<^sup>3\<close>, or an absolute error of \<open>2\<^sup>-\<^sup>1\<^sup>0\<^sup>7\<^sup>5\<close> for a subnormal result.
\<close>

lemma round64_error:
  "\<bar>round64 q - q\<bar> \<le> max (\<bar>q\<bar> * 2 powi (- 53)) (2 powi (- 1075))"
proof (cases "q = 0")
  case True
  then show ?thesis by (simp add: round64_def)
next
  case False
  define e where "e = ilog2 \<bar>q\<bar>"
  define u where "u = max e (- 1022) - 52"
  define m where "m = round_half_even (q / 2 powi u)"
  have r: "round64 q = of_int m * 2 powi u"
    using False by (simp add: round64_def e_def u_def m_def Let_def)
  have p: "(0::rat) < 2 powi u"
    by simp
  have "round64 q - q = (of_int m - q / 2 powi u) * 2 powi u"
    by (simp add: r algebra_simps)
  then have "\<bar>round64 q - q\<bar> = \<bar>of_int m - q / 2 powi u\<bar> * 2 powi u"
    by (simp add: abs_mult)
  also have "\<dots> \<le> 1 / 2 * 2 powi u"
    using round_half_even_error [of "q / 2 powi u"] p
    by (intro mult_right_mono) (simp_all add: m_def)
  also have "\<dots> = 2 powi (u - 1)"
    by (simp add: power_int_diff)
  finally have b: "\<bar>round64 q - q\<bar> \<le> 2 powi (u - 1)" .
  from False have "0 < \<bar>q\<bar>"
    by simp
  from ilog2_bounds [OF this] have l: "2 powi e \<le> \<bar>q\<bar>"
    by (simp add: e_def)
  show ?thesis
  proof (cases "- 1022 \<le> e")
    case True
    then have u1: "u - 1 = e + (- 53)"
      by (simp add: u_def)
    have "(2::rat) powi (u - 1) = 2 powi (e + (- 53))"
      by (simp only: u1)
    also have "\<dots> = 2 powi e * 2 powi (- 53)"
      by (rule power_int_add) simp
    also have "\<dots> \<le> \<bar>q\<bar> * 2 powi (- 53)"
      using l by (intro mult_right_mono) simp_all
    finally show ?thesis
      using b by (simp add: le_max_iff_disj)
  next
    case False
    then have "u - 1 = - 1075"
      by (simp add: u_def)
    with b show ?thesis
      by (simp add: le_max_iff_disj)
  qed
qed

text \<open>A number of magnitude \<open>2\<^sup>1\<^sup>0\<^sup>2\<^sup>4\<close> or more is too large after rounding as well.\<close>

lemma round64_overflow:
  assumes "2 powi 1024 \<le> \<bar>q\<bar>"
  shows "2 powi 1024 \<le> \<bar>round64 q\<bar>"
proof -
  define e where "e = ilog2 \<bar>q\<bar>"
  define u where "u = e - 52"
  define m where "m = round_half_even (q / 2 powi u)"
  have q0: "0 < \<bar>q\<bar>"
    by (rule less_le_trans [OF _ assms]) simp
  from ilog2_bounds [OF q0] have l: "2 powi e \<le> \<bar>q\<bar>" and h: "\<bar>q\<bar> < 2 powi (e + 1)"
    by (simp_all add: e_def)
  from assms h have "(2::rat) powi 1024 < 2 powi (e + 1)"
    by (rule le_less_trans)
  then have "1024 < e + 1"
    by (rule powi_less_cancel)
  then have e: "1024 \<le> e"
    by simp
  then have "max e (- 1022) - 52 = u"
    by (simp add: u_def)
  with q0 have r: "round64 q = of_int m * 2 powi u"
    by (simp add: round64_def m_def Let_def flip: e_def)
  have p: "(0::rat) < 2 powi u"
    by simp
  have s: "(2::rat) powi e = of_int (2 ^ 52) * 2 powi u"
    by (simp add: u_def power_int_diff)
  have "of_int (2 ^ 52) \<le> \<bar>q\<bar> / 2 powi u"
    using l p by (simp add: s pos_le_divide_eq)
  then have "2 ^ 52 \<le> \<bar>m\<bar>"
  proof (cases "0 \<le> q")
    case True
    with \<open>of_int (2 ^ 52) \<le> \<bar>q\<bar> / 2 powi u\<close> have "of_int (2 ^ 52) \<le> q / 2 powi u"
      by simp
    then have "2 ^ 52 \<le> m"
      unfolding m_def by (rule round_half_even_ge)
    then show ?thesis by simp
  next
    case False
    with \<open>of_int (2 ^ 52) \<le> \<bar>q\<bar> / 2 powi u\<close> have "q / 2 powi u \<le> of_int (- (2 ^ 52))"
      by simp
    then have "m \<le> - (2 ^ 52)"
      unfolding m_def by (rule round_half_even_le)
    then show ?thesis by simp
  qed
  then have "(of_int (2 ^ 52) :: rat) \<le> of_int \<bar>m\<bar>"
    by (simp only: of_int_le_iff)
  then have "of_int (2 ^ 52) * 2 powi u \<le> \<bar>of_int m :: rat\<bar> * 2 powi u"
    using p by (intro mult_right_mono) simp_all
  then have t: "2 powi e \<le> \<bar>round64 q\<bar>"
    by (simp add: s r abs_mult)
  have "(2::rat) powi 1024 \<le> 2 powi e"
    using e by (intro power_int_increasing) simp_all
  then show ?thesis
    using t by (rule order_trans)
qed

subsection \<open>The roundings of the examples\<close>

lemma powi_neg_numeral: "(x::rat) powi (- numeral n) = 1 / x ^ numeral n"
  by (simp add: power_int_minus_divide)

lemma floor_rat_numeral:
  "\<lfloor>(numeral a :: rat) / numeral b\<rfloor> = numeral a div numeral b"
  "\<lfloor>- (numeral a :: rat) / numeral b\<rfloor> = - numeral a div numeral b"
  "\<lfloor>- ((numeral a :: rat) / numeral b)\<rfloor> = - numeral a div numeral b"
  using floor_divide_of_int_eq [of "numeral a" "numeral b", where ?'a = rat]
    floor_divide_of_int_eq [of "- numeral a" "numeral b", where ?'a = rat]
  by simp_all

lemma round64_18: "round64 (18) = 18"
  by (rule round64I [where e = 4 and m = 5066549580791808, THEN trans])
    (simp_all add: round_half_even_def floor_rat_numeral powi_neg_numeral Let_def)

lemma round64_375: "round64 (375) = 375"
  by (rule round64I [where e = 8 and m = 6597069766656000, THEN trans])
    (simp_all add: round_half_even_def floor_rat_numeral powi_neg_numeral Let_def)

lemma round64_4_5: "round64 (9 / 2) = 9 / 2"
  by (rule round64I [where e = 2 and m = 5066549580791808, THEN trans])
    (simp_all add: round_half_even_def floor_rat_numeral powi_neg_numeral Let_def)

lemma round64_4: "round64 (4) = 4"
  by (rule round64I [where e = 2 and m = 4503599627370496, THEN trans])
    (simp_all add: round_half_even_def floor_rat_numeral powi_neg_numeral Let_def)

lemma round64_2: "round64 (2) = 2"
  by (rule round64I [where e = 1 and m = 4503599627370496, THEN trans])
    (simp_all add: round_half_even_def floor_rat_numeral powi_neg_numeral Let_def)

lemma round64_36: "round64 (36) = 36"
  by (rule round64I [where e = 5 and m = 5066549580791808, THEN trans])
    (simp_all add: round_half_even_def floor_rat_numeral powi_neg_numeral Let_def)

lemma round64_2_55: "round64 (51 / 20) = 2871044762448691 / 1125899906842624"
  by (rule round64I [where e = 1 and m = 5742089524897382, THEN trans])
    (simp_all add: round_half_even_def floor_rat_numeral powi_neg_numeral Let_def)

lemma round64_1_2: "round64 (6 / 5) = 5404319552844595 / 4503599627370496"
  by (rule round64I [where e = 0 and m = 5404319552844595, THEN trans])
    (simp_all add: round_half_even_def floor_rat_numeral powi_neg_numeral Let_def)

lemma round64_inverter: "round64 (15516043346793526219246784175145 / 5070602400912917605986812821504) = 3445253714938429 / 1125899906842624"
  by (rule round64I [where e = 1 and m = 6890507429876858, THEN trans])
    (simp_all add: round_half_even_def floor_rat_numeral powi_neg_numeral Let_def)

lemma round64_1200: "round64 (1200) = 1200"
  by (rule round64I [where e = 10 and m = 5277655813324800, THEN trans])
    (simp_all add: round_half_even_def floor_rat_numeral powi_neg_numeral Let_def)

lemma round64_4800: "round64 (4800) = 4800"
  by (rule round64I [where e = 12 and m = 5277655813324800, THEN trans])
    (simp_all add: round_half_even_def floor_rat_numeral powi_neg_numeral Let_def)

lemma round64_600: "round64 (600) = 600"
  by (rule round64I [where e = 9 and m = 5277655813324800, THEN trans])
    (simp_all add: round_half_even_def floor_rat_numeral powi_neg_numeral Let_def)

lemma round64_21600: "round64 (21600) = 21600"
  by (rule round64I [where e = 14 and m = 5937362789990400, THEN trans])
    (simp_all add: round_half_even_def floor_rat_numeral powi_neg_numeral Let_def)

lemma round64_26400: "round64 (26400) = 26400"
  by (rule round64I [where e = 14 and m = 7256776743321600, THEN trans])
    (simp_all add: round_half_even_def floor_rat_numeral powi_neg_numeral Let_def)

lemma round64_1_3: "round64 (13 / 10) = 5854679515581645 / 4503599627370496"
  by (rule round64I [where e = 0 and m = 5854679515581645, THEN trans])
    (simp_all add: round_half_even_def floor_rat_numeral powi_neg_numeral Let_def)

lemma round64_0_3: "round64 (3 / 10) = 5404319552844595 / 18014398509481984"
  by (rule round64I [where e = "- 2" and m = 5404319552844595, THEN trans])
    (simp_all add: round_half_even_def floor_rat_numeral powi_neg_numeral Let_def)

lemma round64_total: "round64 (4830110600354857125 / 140737488355328) = 34320"
  by (rule round64I [where e = 15 and m = 4716904883159040, THEN trans])
    (simp_all add: round_half_even_def floor_rat_numeral powi_neg_numeral Let_def)

lemma round64_installation: "round64 (4458563631096790875 / 562949953421312) = 7920"
  by (rule round64I [where e = 12 and m = 8708132091985920, THEN trans])
    (simp_all add: round_half_even_def floor_rat_numeral powi_neg_numeral Let_def)

lemma round64_3: "round64 (3) = 3"
  by (rule round64I [where e = 1 and m = 6755399441055744, THEN trans])
    (simp_all add: round_half_even_def floor_rat_numeral powi_neg_numeral Let_def)

lemma round64_62_5: "round64 (125 / 2) = 125 / 2"
  by (rule round64I [where e = 5 and m = 8796093022208000, THEN trans])
    (simp_all add: round_half_even_def floor_rat_numeral powi_neg_numeral Let_def)

lemma round64_0_5: "round64 (1 / 2) = 1 / 2"
  by (rule round64I [where e = "- 1" and m = 4503599627370496, THEN trans])
    (simp_all add: round_half_even_def floor_rat_numeral powi_neg_numeral Let_def)

lemma round64_1: "round64 (1) = 1"
  by (rule round64I [where e = 0 and m = 4503599627370496, THEN trans])
    (simp_all add: round_half_even_def floor_rat_numeral powi_neg_numeral Let_def)

lemma round64_1000_48: "round64 (125 / 6) = 5864062014805333 / 281474976710656"
  by (rule round64I [where e = 4 and m = 5864062014805333, THEN trans])
    (simp_all add: round_half_even_def floor_rat_numeral powi_neg_numeral Let_def)

lemma round64_3_06: "round64 (153 / 50) = 6890507429876859 / 2251799813685248"
  by (rule round64I [where e = 1 and m = 6890507429876859, THEN trans])
    (simp_all add: round_half_even_def floor_rat_numeral powi_neg_numeral Let_def)


lemmas round64_examples =
  round64_18 round64_375 round64_4_5 round64_4 round64_2 round64_36 round64_2_55 round64_1_2
  round64_inverter round64_1200 round64_4800 round64_600 round64_21600 round64_26400
  round64_1_3 round64_0_3 round64_total round64_installation round64_3 round64_62_5
  round64_0_5 round64_1 round64_1000_48 round64_3_06

section \<open>Basic facts about list objects\<close>

lemma get_set_same: "get_list (set_list h r xs) r = xs"
  by (simp add: get_list_def set_list_def)

lemma get_list_append: "get_list (list_append r x h) r = get_list h r @ [x]"
  by (simp add: list_append_def get_set_same)

lemma add_load_list:
  "get_list (snd (add_load self d p q t h)) (loads self) =
     get_list h (loads self) @
       [\<lparr>description = d, power_w = p, quantity = q, hours_per_day = t,
         daily_energy_wh = p * q * t\<rparr>]"
  by (simp add: add_load_def get_list_append)

section \<open>Demand of an empty calculator\<close>

text \<open>
  Claim C6. When the calculator holds no loads, \<^verbatim>\<open>calculate_demand\<close> returns
  normally, and the four entries of its result, \<open>total_energy_wh\<close>,
  \<open>total_energy_kwh\<close>, \<open>total_ah\<close> and \<open>peak_power_w\<close>, are all zero.
\<close>

theorem calculate_demand_empty:
  assumes "get_list h (loads self) = []"
  shows "calculate_demand self h =
           Inr \<lparr>total_energy_wh = 0, total_energy_kwh = NInt 0, total_ah = NInt 0,
                peak_power_w = 0\<rparr>"
  using assms by (simp add: calculate_demand_def zero_demand_def)

theorem calculate_demand_empty_witness:
  "get_list (mem startup) (loads (calc startup)) = [] \<and>
   calculate_demand (calc startup) (mem startup) =
     Inr \<lparr>total_energy_wh = 0, total_energy_kwh = NInt 0, total_ah = NInt 0,
          peak_power_w = 0\<rparr>"
proof -
  have e: "get_list (mem startup) (loads (calc startup)) = []"
    by (simp add: startup_def init_def new_list_def empty_heap_def get_list_def)
  show ?thesis
    using e calculate_demand_empty [OF e] by simp
qed

text \<open>
  Claim C10. For a calculator without loads the result of \<^verbatim>\<open>calculate_demand\<close>
  does not depend on \<^verbatim>\<open>system_voltage\<close>: whatever voltage the calculator holds,
  the call returns the all-zero result; in particular it returns normally when the
  voltage is zero.
\<close>

theorem empty_demand_ignores_voltage:
  assumes "get_list h (loads self) = []"
  shows "calculate_demand (self\<lparr>system_voltage := v\<rparr>) h = Inr zero_demand \<and>
         calculate_demand (self\<lparr>system_voltage := 0\<rparr>) h = Inr zero_demand"
  using assms by (simp add: calculate_demand_def)

theorem empty_demand_ignores_voltage_witness:
  "system_voltage (fst (init 0 empty_heap)) = 0 \<and>
   get_list (snd (init 0 empty_heap)) (loads (fst (init 0 empty_heap))) = [] \<and>
   calculate_demand (fst (init 0 empty_heap)) (snd (init 0 empty_heap)) = Inr zero_demand"
proof -
  have e: "get_list (snd (init 0 empty_heap)) (loads (fst (init 0 empty_heap))) = []"
    by (simp add: init_def new_list_def empty_heap_def get_list_def)
  have c: "(fst (init 0 empty_heap))\<lparr>system_voltage := 0\<rparr> = fst (init 0 empty_heap)"
    by (simp add: init_def new_list_def)
  show ?thesis
    using e c empty_demand_ignores_voltage [OF e, of 0]
    by (simp add: init_def new_list_def)
qed

section \<open>Demand of any calculator with a positive voltage\<close>

lemma peak_with_hours:
  "(\<lambda>l. power_w l * quantity l) \<circ> with_hours g = (\<lambda>l. power_w l * quantity l)"
  by (simp add: fun_eq_iff with_hours_def)

lemma truediv_int_nonzero:
  assumes "b \<noteq> 0"
  shows "truediv_int a b =
           (if 2 powi 1024 \<le> \<bar>round64 (of_int a / of_int b)\<bar> then Inl OverflowError
            else Inr (Finite (round64 (of_int a / of_int b))))"
  using assms by (simp add: truediv_int_def Let_def)

text \<open>What \<^verbatim>\<open>calculate_demand\<close> computes from a list that is not empty.\<close>

lemma calculate_demand_nonempty:
  assumes "get_list h (loads self) \<noteq> []"
  shows "calculate_demand self h =
           and_then (truediv_int (\<Sum>l\<leftarrow>get_list h (loads self). daily_energy_wh l) 1000)
             (\<lambda>kwh.
           and_then (truediv_int (\<Sum>l\<leftarrow>get_list h (loads self). daily_energy_wh l)
                       (system_voltage self))
             (\<lambda>ah.
           Inr \<lparr>total_energy_wh = (\<Sum>l\<leftarrow>get_list h (loads self). daily_energy_wh l),
                total_energy_kwh = NFloat kwh,
                total_ah = NFloat ah,
                peak_power_w = (\<Sum>l\<leftarrow>get_list h (loads self). power_w l * quantity l)\<rparr>))"
  using assms by (simp add: calculate_demand_def Let_def)

lemma calculate_demand_peak:
  assumes "calculate_demand self h = Inr d"
  shows "peak_power_w d = (\<Sum>l\<leftarrow>get_list h (loads self). power_w l * quantity l)"
proof (cases "get_list h (loads self) = []")
  case True
  with assms show ?thesis
    by (auto simp: calculate_demand_def zero_demand_def)
next
  case False
  with assms show ?thesis
    by (auto simp: calculate_demand_nonempty and_then_def split: sum.splits)
qed

text \<open>
  Claim C3, amended. For every list of loads and every positive
  \<^verbatim>\<open>system_voltage\<close>, \<^verbatim>\<open>calculate_demand\<close> either raises \<open>OverflowError\<close>
  or returns \<open>total_energy_wh\<close> the sum of the stored \<open>daily_energy_wh\<close> (zero
  for the empty list), \<open>peak_power_w\<close> the sum of \<open>power_w * quantity\<close>, and
  \<open>total_energy_kwh\<close> and \<open>total_ah\<close> the quotients of that sum by 1000 and by
  the voltage, each rounded to the nearest binary64 number (for the empty list the
  int 0). It raises exactly when the list is not empty and one of the two rounded
  quotients has a magnitude of \<open>2\<^sup>1\<^sup>0\<^sup>2\<^sup>4\<close> or more. A rounded quotient differs from
  the exact one by a relative error of \<open>2\<^sup>-\<^sup>5\<^sup>3\<close> at most (or by \<open>2\<^sup>-\<^sup>1\<^sup>0\<^sup>7\<^sup>5\<close>). The
  peak does not depend on the hours: the same loads with any other hours give the
  same peak whenever the call returns.
\<close>

theorem calculate_demand_formulas:
  assumes "0 < system_voltage self"
  shows
    "(let ls = get_list h (loads self);
          total = (\<Sum>l\<leftarrow>ls. daily_energy_wh l);
          peak = (\<Sum>l\<leftarrow>ls. power_w l * quantity l);
          kwh = round64 (of_int total / 1000);
          ah = round64 (of_int total / of_int (system_voltage self))
      in calculate_demand self h =
           (if ls = [] then
              Inr \<lparr>total_energy_wh = 0, total_energy_kwh = NInt 0, total_ah = NInt 0,
                   peak_power_w = 0\<rparr>
            else if 2 powi 1024 \<le> \<bar>kwh\<bar> \<or> 2 powi 1024 \<le> \<bar>ah\<bar> then Inl OverflowError
            else
              Inr \<lparr>total_energy_wh = total, total_energy_kwh = NFloat (Finite kwh),
                   total_ah = NFloat (Finite ah), peak_power_w = peak\<rparr>) \<and>
         \<bar>kwh - of_int total / 1000\<bar> \<le>
           max (\<bar>of_int total / 1000\<bar> * 2 powi (- 53)) (2 powi (- 1075)) \<and>
         \<bar>ah - of_int total / of_int (system_voltage self)\<bar> \<le>
           max (\<bar>of_int total / of_int (system_voltage self)\<bar> * 2 powi (- 53))
             (2 powi (- 1075)) \<and>
         (\<forall>g d. calculate_demand self (set_list h (loads self) (map (with_hours g) ls)) = Inr d \<longrightarrow>
            peak_power_w d = peak))"
proof -
  define ls where "ls = get_list h (loads self)"
  define total where "total = (\<Sum>l\<leftarrow>ls. daily_energy_wh l)"
  define peak where "peak = (\<Sum>l\<leftarrow>ls. power_w l * quantity l)"
  define kwh where "kwh = round64 (of_int total / 1000)"
  define ah where "ah = round64 (of_int total / of_int (system_voltage self))"
  from assms have v: "system_voltage self \<noteq> 0"
    by simp
  have a: "calculate_demand self h =
      (if ls = [] then
         Inr \<lparr>total_energy_wh = 0, total_energy_kwh = NInt 0, total_ah = NInt 0,
              peak_power_w = 0\<rparr>
       else if 2 powi 1024 \<le> \<bar>kwh\<bar> \<or> 2 powi 1024 \<le> \<bar>ah\<bar> then Inl OverflowError
       else
         Inr \<lparr>total_energy_wh = total, total_energy_kwh = NFloat (Finite kwh),
              total_ah = NFloat (Finite ah), peak_power_w = peak\<rparr>)"
  proof (cases "ls = []")
    case True
    then show ?thesis
      by (simp add: calculate_demand_def zero_demand_def ls_def)
  next
    case False
    then have "get_list h (loads self) \<noteq> []"
      by (simp add: ls_def)
    from calculate_demand_nonempty [OF this] False show ?thesis
      unfolding truediv_int_nonzero [OF v]
      by (simp only: ls_def [symmetric] total_def [symmetric] peak_def [symmetric])
        (simp add: truediv_int_def and_then_def Let_def kwh_def ah_def)
  qed
  have b: "\<bar>kwh - of_int total / 1000\<bar> \<le>
      max (\<bar>of_int total / 1000\<bar> * 2 powi (- 53)) (2 powi (- 1075))"
    unfolding kwh_def by (rule round64_error)
  have c: "\<bar>ah - of_int total / of_int (system_voltage self)\<bar> \<le>
      max (\<bar>of_int total / of_int (system_voltage self)\<bar> * 2 powi (- 53)) (2 powi (- 1075))"
    unfolding ah_def by (rule round64_error)
  have d: "peak_power_w d = peak"
    if "calculate_demand self (set_list h (loads self) (map (with_hours g) ls)) = Inr d"
    for g d
    using calculate_demand_peak [OF that]
    by (simp add: get_set_same peak_def peak_with_hours)
  from a b c d show ?thesis
    unfolding Let_def ls_def [symmetric] total_def [symmetric] peak_def [symmetric]
      kwh_def [symmetric] ah_def [symmetric]
    by blast
qed

lemma small_office_loads:
  "get_list (mem (small_office_setup startup)) (loads (calc (small_office_setup startup))) =
     [\<lparr>description = ''LED Lights'', power_w = 20, quantity = 15, hours_per_day = 10,
       daily_energy_wh = 3000\<rparr>,
      \<lparr>description = ''Computers'', power_w = 150, quantity = 5, hours_per_day = 8,
       daily_energy_wh = 6000\<rparr>,
      \<lparr>description = ''AC Unit'', power_w = 1500, quantity = 1, hours_per_day = 6,
       daily_energy_wh = 9000\<rparr>]"
  by (simp add: small_office_setup_def startup_def init_def new_list_def Let_def add_load_def
      list_append_def set_list_def get_list_def empty_heap_def)

lemma small_office_voltage: "system_voltage (calc (small_office_setup startup)) = 48"
  by (simp add: small_office_setup_def startup_def init_def new_list_def Let_def)

theorem calculate_demand_formulas_witness:
  "(0::int) < system_voltage (calc (small_office_setup startup)) \<and>
   calculate_demand (calc (small_office_setup startup)) (mem (small_office_setup startup)) =
     Inr \<lparr>total_energy_wh = 18000, total_energy_kwh = NFloat (Finite 18),
          total_ah = NFloat (Finite 375), peak_power_w = 2550\<rparr>"
proof -
  have v: "0 < system_voltage (calc (small_office_setup startup))"
    by (simp add: small_office_voltage)
  show ?thesis
    using v calculate_demand_formulas [OF v, of "mem (small_office_setup startup)"]
    unfolding small_office_loads small_office_voltage Let_def
    by (simp add: round64_examples)
qed

text \<open>
  The claim as stated fails for a load of \<open>10\<^sup>3\<^sup>1\<^sup>0\<close> watts at 48 volts: the
  quotient by 48 is too large for a float and the call raises \<open>OverflowError\<close>
  where the claim has it return. It also fails where the call returns: for a load
  of 1000 watt-hours at 48 volts \<open>total_ah\<close> is the binary64 number next to
  \<open>1000 / 48\<close>, not that quotient.
\<close>

theorem calculate_demand_overflow_counterexample:
  "(let (c, h0) = init 48 empty_heap;
        h1 = snd (add_load c ''Smelter'' (10 ^ 310) 1 1 h0);
        h2 = snd (add_load c ''Heater'' 1000 1 1 h0)
    in 0 < system_voltage c \<and>
       calculate_demand c h1 = Inl OverflowError \<and>
       calculate_demand c h2 =
         Inr \<lparr>total_energy_wh = 1000, total_energy_kwh = NFloat (Finite 1),
              total_ah = NFloat (Finite (5864062014805333 / 281474976710656)),
              peak_power_w = 1000\<rparr> \<and>
       (5864062014805333 / 281474976710656 :: rat) \<noteq> 1000 / 48)"
proof -
  have o: "2 powi 1024 \<le> \<bar>round64 (10 ^ 310 / 48)\<bar>"
    by (rule round64_overflow) simp
  have t: "truediv_int (10 ^ 310) 48 = Inl OverflowError"
    using o by (simp add: truediv_int_def Let_def)
  have k: "truediv_int (10 ^ 310) 1000 = Inl OverflowError \<or>
      (\<exists>f. truediv_int (10 ^ 310) 1000 = Inr f)"
    by (cases "truediv_int (10 ^ 310) 1000") (auto simp: truediv_int_def Let_def split: if_splits)
  have "calculate_demand (fst (init 48 empty_heap))
      (snd (add_load (fst (init 48 empty_heap)) ''Smelter'' (10 ^ 310) 1 1
        (snd (init 48 empty_heap)))) = Inl OverflowError"
    using k t
    by (auto simp: calculate_demand_def add_load_def list_append_def set_list_def get_list_def
        init_def new_list_def empty_heap_def Let_def and_then_def)
  moreover have "calculate_demand (fst (init 48 empty_heap))
      (snd (add_load (fst (init 48 empty_heap)) ''Heater'' 1000 1 1 (snd (init 48 empty_heap)))) =
      Inr \<lparr>total_energy_wh = 1000, total_energy_kwh = NFloat (Finite 1),
           total_ah = NFloat (Finite (5864062014805333 / 281474976710656)),
           peak_power_w = 1000\<rparr>"
    by (simp add: calculate_demand_def add_load_def list_append_def set_list_def get_list_def
        init_def new_list_def empty_heap_def Let_def and_then_def truediv_int_def
        round64_examples)
  ultimately show ?thesis
    by (simp add: split_def Let_def) (simp add: init_def new_list_def)
qed

section \<open>Adding a load\<close>

text \<open>
  Claim C1, amended. \<^verbatim>\<open>add_load\<close> validates nothing and never fails: for every
  description, power, quantity and hours (an empty description, a power that is not
  positive, a quantity below one and hours outside 0 to 24 included) the call
  returns \<open>None\<close> and the calculator's list is the old list with the new load,
  whose energy is the product of the three numbers, appended; so the list after
  the call is never the list before it.
\<close>

theorem add_load_no_validation:
  "add_load self d p q t h =
     (PyNone,
      set_list h (loads self)
        (get_list h (loads self) @
           [\<lparr>description = d, power_w = p, quantity = q, hours_per_day = t,
             daily_energy_wh = p * q * t\<rparr>])) \<and>
   get_list (snd (add_load self d p q t h)) (loads self) \<noteq> get_list h (loads self)"
  by (simp add: add_load_def list_append_def get_set_same)

text \<open>
  The claim as stated fails on the invalid inputs \<open>("Fan", 0, 1, 5)\<close> and
  \<open>("", -5, 0, 25)\<close>: on the empty calculator both calls return \<open>None\<close> and
  leave one load in the list.
\<close>

theorem add_load_invalid_counterexample:
  "get_list (mem startup) (loads (calc startup)) = [] \<and>
   fst (add_load (calc startup) ''Fan'' 0 1 5 (mem startup)) = PyNone \<and>
   get_list (snd (add_load (calc startup) ''Fan'' 0 1 5 (mem startup))) (loads (calc startup)) =
     [\<lparr>description = ''Fan'', power_w = 0, quantity = 1, hours_per_day = 5,
       daily_energy_wh = 0\<rparr>] \<and>
   fst (add_load (calc startup) [] (- 5) 0 25 (mem startup)) = PyNone \<and>
   get_list (snd (add_load (calc startup) [] (- 5) 0 25 (mem startup))) (loads (calc startup)) =
     [\<lparr>description = [], power_w = - 5, quantity = 0, hours_per_day = 25,
       daily_energy_wh = 0\<rparr>]"
  by (simp add: add_load_def list_append_def startup_def init_def new_list_def
      empty_heap_def get_list_def set_list_def)

text \<open>
  Claim C9, amended. Every call of \<^verbatim>\<open>add_load\<close> appends the new load at the end of
  the list: the list grows by one, the loads already there keep their positions,
  and the new load stands at the position that was the length of the list before
  the call. The call returns \<open>None\<close>, not that position.
\<close>

theorem add_load_position:
  "fst (add_load self d p q t h) = PyNone \<and>
   length (get_list (snd (add_load self d p q t h)) (loads self)) =
     Suc (length (get_list h (loads self))) \<and>
   take (length (get_list h (loads self)))
     (get_list (snd (add_load self d p q t h)) (loads self)) = get_list h (loads self) \<and>
   get_list (snd (add_load self d p q t h)) (loads self) ! length (get_list h (loads self)) =
     \<lparr>description = d, power_w = p, quantity = q, hours_per_day = t,
      daily_energy_wh = p * q * t\<rparr>"
  by (simp add: add_load_list) (simp add: add_load_def)

text \<open>
  The claim as stated fails on the first load of the scenario: the value of the
  call is not the integer that is the length of the list before the call.
\<close>

theorem add_load_returns_none_counterexample:
  "fst (add_load (calc startup) ''LED Light'' 20 15 10 (mem startup)) \<noteq>
     PyInt (int (length (get_list (mem startup) (loads (calc startup)))))"
  by (simp add: add_load_def)

section \<open>The voltage and the division\<close>

lemma run_voltage: "system_voltage (calc (run evs s)) = system_voltage (calc s)"
proof (induction evs arbitrary: s)
  case Nil
  show ?case by simp
next
  case (Cons e es)
  have "system_voltage (calc (step e s)) = system_voltage (calc s)"
    by (cases e)
      (simp_all add: on_add_load_def on_delete_def on_clear_def small_office_setup_def
        retail_store_setup_def workshop_setup_def Let_def split_def
        split: prod.splits sum.splits)
  with Cons.IH [of "step e s"] show ?case by simp
qed

lemma startup_voltage: "system_voltage (calc startup) = 48"
  by (simp add: startup_def init_def new_list_def Let_def)

text \<open>
  Claim C2, amended. The constructor rejects nothing: it stores whatever voltage it
  is given. \<^verbatim>\<open>calculate_demand\<close> raises \<open>ZeroDivisionError\<close> exactly when the
  list is not empty, the voltage is zero and the division of the total by 1000,
  which comes first, does not raise \<open>OverflowError\<close>. So for every calculator
  whose voltage is not zero no division by zero happens; in every session that
  \<^verbatim>\<open>main\<close> reaches from its first run the voltage is the default 48. (A total
  beyond the range of the floats still makes the call raise \<open>OverflowError\<close>.)
\<close>

theorem division_by_zero_iff:
  "system_voltage (fst (init v h)) = v \<and>
   (calculate_demand self h = Inl ZeroDivisionError \<longleftrightarrow>
      get_list h (loads self) \<noteq> [] \<and> system_voltage self = 0 \<and>
      \<bar>round64 (of_int (\<Sum>l\<leftarrow>get_list h (loads self). daily_energy_wh l) / 1000)\<bar>
        < 2 powi 1024) \<and>
   system_voltage (calc (run evs startup)) = 48 \<and>
   calculate_demand (calc (run evs startup)) (mem (run evs startup)) \<noteq> Inl ZeroDivisionError"
proof -
  have a: "system_voltage (fst (init v h)) = v"
    by (simp add: init_def new_list_def)
  have b: "calculate_demand c k = Inl ZeroDivisionError \<longleftrightarrow>
      get_list k (loads c) \<noteq> [] \<and> system_voltage c = 0 \<and>
      \<bar>round64 (of_int (\<Sum>l\<leftarrow>get_list k (loads c). daily_energy_wh l) / 1000)\<bar> < 2 powi 1024"
    for c k
  proof (cases "get_list k (loads c) = []")
    case True
    then show ?thesis
      by (simp add: calculate_demand_def)
  next
    case False
    show ?thesis
      using False unfolding calculate_demand_nonempty [OF False]
      by (auto simp: and_then_def truediv_int_def Let_def not_le split: sum.splits if_splits)
  qed
  have c: "system_voltage (calc (run evs startup)) = 48"
    by (simp add: run_voltage startup_voltage)
  from a b c show ?thesis by simp
qed

text \<open>
  The claim as stated fails for the voltage zero: the constructor returns a
  calculator with that voltage, and after one load has been added
  \<^verbatim>\<open>calculate_demand\<close> raises \<open>ZeroDivisionError\<close>.
\<close>

theorem zero_voltage_counterexample:
  "(let (c, h0) = init 0 empty_heap;
        h1 = snd (add_load c ''Fan'' 100 1 5 h0)
    in system_voltage c = 0 \<and> calculate_demand c h1 = Inl ZeroDivisionError)"
  by (simp add: Let_def init_def new_list_def empty_heap_def add_load_def list_append_def
      set_list_def get_list_def calculate_demand_def and_then_def truediv_int_def
      round64_examples)

section \<open>The small office\<close>

lemma float_literals:
  "float_literal (9 / 2) = Finite (9 / 2)"
  "float_literal (6 / 5) = Finite (5404319552844595 / 4503599627370496)"
  "float_literal (13 / 10) = Finite (5854679515581645 / 4503599627370496)"
  "float_literal (3 / 10) = Finite (5404319552844595 / 18014398509481984)"
  "float_literal (153 / 50) = Finite (6890507429876859 / 2251799813685248)"
  by (simp_all add: float_literal_def ieee_round_def round64_examples)

text \<open>
  Claim C4, amended. On a new calculator with the voltage 48, whose list is empty,
  adding \<open>("LED Light", 20, 15, 10)\<close>, \<open>("Computer", 150, 5, 8)\<close> and
  \<open>("AC Unit", 1500, 1, 6)\<close> gives the demand \<open>total_energy_wh = 18000\<close>,
  \<open>total_energy_kwh = 18\<close>, \<open>peak_power_w = 2550\<close>, \<open>total_ah = 375\<close>; from it
  \<^verbatim>\<open>main\<close> derives the solar panels \<open>4.0\<close>, the battery bank \<open>36\<close>, and the
  costs \<open>26400\<close>, \<open>7920\<close> and \<open>34320\<close>, all of them exactly. The inverter is
  the float \<open>3.0599999999999996\<close>, that is \<open>3445253714938429 / 2\<^sup>5\<^sup>0\<close>, which is
  less than \<open>2\<^sup>-\<^sup>5\<^sup>0\<close> below \<open>3.06\<close>. The quick-start button "Small Office Setup",
  which adds the same numbers, gives the same demand.
\<close>

theorem small_office_scenario:
  "(let (c, h0) = init 48 empty_heap;
        h1 = snd (add_load c ''LED Light'' 20 15 10 h0);
        h2 = snd (add_load c ''Computer'' 150 5 8 h1);
        h3 = snd (add_load c ''AC Unit'' 1500 1 6 h2);
        d = \<lparr>total_energy_wh = 18000, total_energy_kwh = NFloat (Finite 18),
             total_ah = NFloat (Finite 375), peak_power_w = 2550\<rparr>
    in get_list h0 (loads c) = [] \<and>
       calculate_demand c h3 = Inr d \<and>
       pv_size d = Inr (NFloat (Finite 4.0)) \<and>
       battery_capacity_kwh d = Inr (NFloat (Finite 36)) \<and>
       inverter_kw d = Inr (NFloat (Finite (3445253714938429 / 2 ^ 50))) \<and>
       \<bar>3445253714938429 / 2 ^ 50 - 3.06 :: rat\<bar> < 1 / 2 ^ 50 \<and>
       equipment_cost d = Inr (NFloat (Finite 26400)) \<and>
       installation_cost d = Inr (NFloat (Finite 7920)) \<and>
       total_cost d = Inr (NFloat (Finite 34320)) \<and>
       calculate_demand (calc (small_office_setup startup)) (mem (small_office_setup startup)) =
         Inr d)"
proof -
  define d where "d = \<lparr>total_energy_wh = 18000, total_energy_kwh = NFloat (Finite 18),
      total_ah = NFloat (Finite 375), peak_power_w = 2550\<rparr>"
  have demand: "calculate_demand (fst (init 48 empty_heap))
      (snd (add_load (fst (init 48 empty_heap)) ''AC Unit'' 1500 1 6
        (snd (add_load (fst (init 48 empty_heap)) ''Computer'' 150 5 8
          (snd (add_load (fst (init 48 empty_heap)) ''LED Light'' 20 15 10
            (snd (init 48 empty_heap)))))))) = Inr d"
    by (simp add: d_def calculate_demand_def add_load_def list_append_def set_list_def
        get_list_def init_def new_list_def empty_heap_def Let_def and_then_def truediv_int_def
        round64_examples)
  have empty: "get_list (snd (init 48 empty_heap)) (loads (fst (init 48 empty_heap))) = []"
    by (simp add: init_def new_list_def empty_heap_def get_list_def)
  have pv: "pv_size d = Inr (NFloat (Finite 4.0))"
    by (simp add: d_def pv_size_def truediv_def and_then_def as_float_def float_literals
        ieee_round_def round64_examples)
  have battery: "battery_capacity_kwh d = Inr (NFloat (Finite 36))"
    by (simp add: d_def battery_capacity_kwh_def mul_def and_then_def as_float_def
        int_to_float_def ieee_round_def round64_examples)
  have inverter: "inverter_kw d = Inr (NFloat (Finite (3445253714938429 / 2 ^ 50)))"
    by (simp add: d_def inverter_kw_def truediv_def mul_def and_then_def as_float_def
        truediv_int_def float_literals ieee_round_def round64_examples)
  have near: "\<bar>3445253714938429 / 2 ^ 50 - 3.06 :: rat\<bar> < 1 / 2 ^ 50"
    by simp
  have equipment: "equipment_cost d = Inr (NFloat (Finite 26400))"
    by (simp add: equipment_cost_def pv) 
      (simp add: d_def mul_def add_def and_then_def as_float_def int_to_float_def
        ieee_round_def round64_examples)
  have installation: "installation_cost d = Inr (NFloat (Finite 7920))"
    by (simp add: installation_cost_def equipment)
      (simp add: mul_def and_then_def as_float_def float_literals ieee_round_def
        round64_examples)
  have total: "total_cost d = Inr (NFloat (Finite 34320))"
    by (simp add: total_cost_def equipment)
      (simp add: mul_def and_then_def as_float_def float_literals ieee_round_def
        round64_examples)
  have button: "calculate_demand (calc (small_office_setup startup))
      (mem (small_office_setup startup)) = Inr d"
    by (simp add: d_def calculate_demand_def small_office_loads small_office_voltage
        and_then_def truediv_int_def Let_def round64_examples)
  from demand empty pv battery inverter near equipment installation total button
  show ?thesis
    unfolding d_def [symmetric] by (simp add: split_def Let_def)
qed

text \<open>
  The claim as stated fails at the inverter: the value that \<^verbatim>\<open>main\<close> computes is
  neither the number \<open>3.06\<close> nor the float that the literal \<open>3.06\<close> denotes.
\<close>

theorem inverter_counterexample:
  "inverter_kw \<lparr>total_energy_wh = 18000, total_energy_kwh = NFloat (Finite 18),
      total_ah = NFloat (Finite 375), peak_power_w = 2550\<rparr> \<noteq> Inr (NFloat (Finite 3.06)) \<and>
   inverter_kw \<lparr>total_energy_wh = 18000, total_energy_kwh = NFloat (Finite 18),
      total_ah = NFloat (Finite 375), peak_power_w = 2550\<rparr> \<noteq>
     Inr (NFloat (float_literal 3.06))"
  by (simp add: inverter_kw_def truediv_def mul_def and_then_def as_float_def
      truediv_int_def float_literals ieee_round_def round64_examples)

section \<open>The loads of a session\<close>

lemma current_loads_add:
  "current_loads (on_add_load c a p q t s) =
     current_loads s @
       [\<lparr>description = (if c = [] then a else c), power_w = p, quantity = q,
         hours_per_day = t, daily_energy_wh = p * q * t\<rparr>]"
  by (simp add: current_loads_def on_add_load_def Let_def add_load_list)

lemma current_loads_small_office:
  "current_loads (small_office_setup s) =
     current_loads s @
       [\<lparr>description = ''LED Lights'', power_w = 20, quantity = 15, hours_per_day = 10,
         daily_energy_wh = 20 * 15 * 10\<rparr>,
        \<lparr>description = ''Computers'', power_w = 150, quantity = 5, hours_per_day = 8,
         daily_energy_wh = 150 * 5 * 8\<rparr>,
        \<lparr>description = ''AC Unit'', power_w = 1500, quantity = 1, hours_per_day = 6,
         daily_energy_wh = 1500 * 1 * 6\<rparr>]"
  by (simp add: current_loads_def small_office_setup_def Let_def add_load_list del: mult_numeral_left_semiring_numeral)

lemma current_loads_clear: "current_loads (on_clear s) = []"
  by (simp add: current_loads_def on_clear_def new_list_def get_list_def Let_def)



lemma on_delete_ok:
  assumes "0 \<le> i" "i < int (length (current_loads s))" "i < 2 ^ 63"
  shows "fst (on_delete i s) = None"
    and "current_loads (snd (on_delete i s)) =
           take (nat i) (current_loads s) @ drop (Suc (nat i)) (current_loads s)"
  using assms by (auto simp: on_delete_def list_pop_def current_loads_def Let_def get_set_same)


lemma current_loads_retail_store:
  "current_loads (retail_store_setup s) =
     current_loads s @
       [\<lparr>description = ''LED Lights'', power_w = 20, quantity = 30, hours_per_day = 12,
         daily_energy_wh = 20 * 30 * 12\<rparr>,
        \<lparr>description = ''Refrigerator'', power_w = 300, quantity = 2, hours_per_day = 24,
         daily_energy_wh = 300 * 2 * 24\<rparr>,
        \<lparr>description = ''AC Unit'', power_w = 1500, quantity = 2, hours_per_day = 8,
         daily_energy_wh = 1500 * 2 * 8\<rparr>]"
  by (simp add: current_loads_def retail_store_setup_def Let_def add_load_list
      del: mult_numeral_left_semiring_numeral)

lemma current_loads_workshop:
  "current_loads (workshop_setup s) =
     current_loads s @
       [\<lparr>description = ''LED Lights'', power_w = 20, quantity = 20, hours_per_day = 10,
         daily_energy_wh = 20 * 20 * 10\<rparr>,
        \<lparr>description = ''Power Tools'', power_w = 1000, quantity = 3, hours_per_day = 4,
         daily_energy_wh = 1000 * 3 * 4\<rparr>,
        \<lparr>description = ''Ventilation'', power_w = 200, quantity = 2, hours_per_day = 8,
         daily_energy_wh = 200 * 2 * 8\<rparr>]"
  by (simp add: current_loads_def workshop_setup_def Let_def add_load_list
      del: mult_numeral_left_semiring_numeral)

lemma subseq_remove: "subseq (take k xs @ drop (Suc k) xs) xs"
proof (induction xs arbitrary: k)
  case Nil
  show ?case by simp
next
  case (Cons x xs)
  show ?case
  proof (cases k)
    case 0
    have "subseq xs (x # xs)"
      by (rule list_emb_Cons) simp
    with 0 show ?thesis by simp
  next
    case (Suc k')
    with Cons.IH [of k'] show ?thesis by simp
  qed
qed

lemma current_loads_delete:
  "current_loads (snd (on_delete i s)) = current_loads s \<or>
   (\<exists>k. current_loads (snd (on_delete i s)) =
          take k (current_loads s) @ drop (Suc k) (current_loads s))"
  by (auto simp: on_delete_def list_pop_def current_loads_def Let_def get_set_same)

lemma step_loads:
  "\<exists>old new. current_loads (step e s) = old @ new \<and> subseq old (current_loads s) \<and>
      list_all energy_consistent new"
proof (cases e)
  case (AddLoad c a p q t)
  have "current_loads (step e s) = current_loads s @
      [\<lparr>description = (if c = [] then a else c), power_w = p, quantity = q,
        hours_per_day = t, daily_energy_wh = p * q * t\<rparr>]"
    using AddLoad by (simp add: current_loads_add)
  moreover have "list_all energy_consistent
      [\<lparr>description = (if c = [] then a else c), power_w = p, quantity = q,
        hours_per_day = t, daily_energy_wh = p * q * t\<rparr>]"
    by (simp add: energy_consistent_def)
  ultimately show ?thesis by blast
next
  case (Delete i)
  from current_loads_delete [of i s]
  have "subseq (current_loads (step e s)) (current_loads s)"
    using Delete by (auto simp: subseq_remove)
  then have "current_loads (step e s) = current_loads (step e s) @ [] \<and>
      subseq (current_loads (step e s)) (current_loads s) \<and> list_all energy_consistent []"
    by simp
  then show ?thesis by blast
next
  case ClearAll
  then have "current_loads (step e s) = [] @ [] \<and> subseq [] (current_loads s) \<and>
      list_all energy_consistent []"
    by (simp add: current_loads_clear)
  then show ?thesis by blast
next
  case SmallOffice
  then show ?thesis
    using current_loads_small_office [of s]
    by (intro exI [of _ "current_loads s"] exI) (auto simp: energy_consistent_def)
next
  case RetailStore
  then show ?thesis
    using current_loads_retail_store [of s]
    by (intro exI [of _ "current_loads s"] exI) (auto simp: energy_consistent_def)
next
  case Workshop
  then show ?thesis
    using current_loads_workshop [of s]
    by (intro exI [of _ "current_loads s"] exI) (auto simp: energy_consistent_def)
qed

lemma step_consistent:
  assumes "list_all energy_consistent (current_loads s)"
  shows "list_all energy_consistent (current_loads (step e s))"
proof -
  obtain old new where eq: "current_loads (step e s) = old @ new"
    and sub: "subseq old (current_loads s)" and new: "list_all energy_consistent new"
    using step_loads [of e s] by blast
  from sub have "set old \<subseteq> set (current_loads s)"
    by (auto elim: list_emb_set)
  with assms have "list_all energy_consistent old"
    by (auto simp: list_all_iff)
  with new eq show ?thesis by simp
qed

lemma run_consistent:
  "list_all energy_consistent (current_loads s) \<Longrightarrow>
   list_all energy_consistent (current_loads (run evs s))"
  by (induction evs arbitrary: s) (simp_all add: step_consistent)

lemma startup_loads: "current_loads startup = []"
  by (simp add: current_loads_def startup_def init_def new_list_def empty_heap_def get_list_def)

text \<open>
  Claim C5. After every sequence of button presses from the first run (adding,
  deleting, clearing, quick start) every load in the calculator's list has
  \<open>daily_energy_wh = power_w * quantity * hours_per_day\<close>. The field is set
  when the load is built and no handler changes a stored load: after any one press
  the list consists of loads that were already in it, unchanged and in their order,
  followed by newly built loads, whose energy is that product.
\<close>

theorem daily_energy_invariant:
  "(\<forall>l \<in> set (current_loads (run evs startup)).
      daily_energy_wh l = power_w l * quantity l * hours_per_day l) \<and>
   (\<exists>old new. current_loads (step e s) = old @ new \<and> subseq old (current_loads s) \<and>
      list_all energy_consistent new)"
proof -
  have "list_all energy_consistent (current_loads (run evs startup))"
    by (rule run_consistent) (simp add: startup_loads)
  then show ?thesis
    using step_loads [of e s] by (simp add: list_all_iff energy_consistent_def)
qed

lemma small_office_session:
  "current_loads (small_office_setup startup) =
     [\<lparr>description = ''LED Lights'', power_w = 20, quantity = 15, hours_per_day = 10,
       daily_energy_wh = 3000\<rparr>,
      \<lparr>description = ''Computers'', power_w = 150, quantity = 5, hours_per_day = 8,
       daily_energy_wh = 6000\<rparr>,
      \<lparr>description = ''AC Unit'', power_w = 1500, quantity = 1, hours_per_day = 6,
       daily_energy_wh = 9000\<rparr>]"
  by (simp add: current_loads_small_office startup_loads)

theorem daily_energy_invariant_witness:
  "current_loads (run [SmallOffice, Delete 0, AddLoad [] ''Printer'' 100 1 2] startup) =
     [\<lparr>description = ''Computers'', power_w = 150, quantity = 5, hours_per_day = 8,
       daily_energy_wh = 6000\<rparr>,
      \<lparr>description = ''AC Unit'', power_w = 1500, quantity = 1, hours_per_day = 6,
       daily_energy_wh = 9000\<rparr>,
      \<lparr>description = ''Printer'', power_w = 100, quantity = 1, hours_per_day = 2,
       daily_energy_wh = 200\<rparr>] \<and>
   list_all energy_consistent
     (current_loads (run [SmallOffice, Delete 0, AddLoad [] ''Printer'' 100 1 2] startup))"
proof -
  have d: "current_loads (snd (on_delete 0 (small_office_setup startup))) =
      take (nat 0) (current_loads (small_office_setup startup)) @
      drop (Suc (nat 0)) (current_loads (small_office_setup startup))"
    by (rule on_delete_ok) (simp_all add: small_office_session)
  have "current_loads (run [SmallOffice, Delete 0, AddLoad [] ''Printer'' 100 1 2] startup) =
     [\<lparr>description = ''Computers'', power_w = 150, quantity = 5, hours_per_day = 8,
       daily_energy_wh = 6000\<rparr>,
      \<lparr>description = ''AC Unit'', power_w = 1500, quantity = 1, hours_per_day = 6,
       daily_energy_wh = 9000\<rparr>,
      \<lparr>description = ''Printer'', power_w = 100, quantity = 1, hours_per_day = 2,
       daily_energy_wh = 200\<rparr>]"
    by (simp add: current_loads_add d small_office_session)
  then show ?thesis
    using daily_energy_invariant [of "[SmallOffice, Delete 0, AddLoad [] ''Printer'' 100 1 2]"]
    by (simp add: energy_consistent_def)
qed

section \<open>Deleting a load\<close>




section \<open>The list that main holds\<close>

text \<open>
  Claim C8, amended. The list keeps the order of insertion: a load that is added
  stands behind the loads already there. What \<^verbatim>\<open>main\<close> reads from
  \<^verbatim>\<open>calculator.loads\<close> and keeps in \<^verbatim>\<open>st.session_state.loads\<close> is the
  calculator's list object itself, not a copy: after the handler of "Add Load" both
  names refer to one object, so whatever content \<open>xs\<close> a caller gives the list
  through the name it holds is the content that the calculator reads afterwards, and
  \<^verbatim>\<open>calculate_demand\<close> is computed from \<open>xs\<close>: the zeros when \<open>xs\<close> is empty,
  and otherwise the sums over \<open>xs\<close> and their quotients.
\<close>

theorem loads_is_shared:
  "(let s' = on_add_load c a p q t s in
      sloads s' = loads (calc s') \<and>
      current_loads s' =
        current_loads s @
          [\<lparr>description = (if c = [] then a else c), power_w = p, quantity = q,
            hours_per_day = t, daily_energy_wh = p * q * t\<rparr>] \<and>
      get_list (set_list (mem s') (sloads s') xs) (loads (calc s')) = xs \<and>
      calculate_demand (calc s') (set_list (mem s') (sloads s') xs) =
        (if xs = [] then Inr zero_demand
         else
           and_then (truediv_int (\<Sum>l\<leftarrow>xs. daily_energy_wh l) 1000) (\<lambda>kwh.
           and_then (truediv_int (\<Sum>l\<leftarrow>xs. daily_energy_wh l) (system_voltage (calc s)))
             (\<lambda>ah.
           Inr \<lparr>total_energy_wh = (\<Sum>l\<leftarrow>xs. daily_energy_wh l),
                total_energy_kwh = NFloat kwh,
                total_ah = NFloat ah,
                peak_power_w = (\<Sum>l\<leftarrow>xs. power_w l * quantity l)\<rparr>))))"
proof -
  have r: "sloads (on_add_load c a p q t s) = loads (calc (on_add_load c a p q t s))"
    by (simp add: on_add_load_def Let_def)
  have v: "system_voltage (calc (on_add_load c a p q t s)) = system_voltage (calc s)"
    by (simp add: on_add_load_def Let_def)
  show ?thesis
    unfolding Let_def r
    by (simp add: current_loads_add get_set_same calculate_demand_def v Let_def)
qed

text \<open>
  The claim as stated fails after one "Add Load": popping the only element from the
  list that the session holds empties the calculator's list, and the demand drops
  from 3000 Wh to zero.
\<close>

theorem loads_snapshot_counterexample:
  "(let s1 = on_add_load [] ''LED Light'' 20 15 10 startup;
        returned = sloads s1;
        h' = snd (list_pop returned 0 (mem s1))
    in get_list (mem s1) (loads (calc s1)) =
         [\<lparr>description = ''LED Light'', power_w = 20, quantity = 15, hours_per_day = 10,
           daily_energy_wh = 3000\<rparr>] \<and>
       calculate_demand (calc s1) (mem s1) =
         Inr \<lparr>total_energy_wh = 3000, total_energy_kwh = NFloat (Finite 3),
              total_ah = NFloat (Finite 62.5), peak_power_w = 300\<rparr> \<and>
       get_list h' (loads (calc s1)) = [] \<and>
       calculate_demand (calc s1) h' = Inr zero_demand)"
  by (simp add: Let_def on_add_load_def startup_def init_def new_list_def empty_heap_def
      add_load_def list_append_def list_pop_def set_list_def get_list_def
      calculate_demand_def and_then_def truediv_int_def round64_examples)

end
